theory Spec2Isabelle
  imports Main "HOL-Library.AList" "HOL-Library.Word"
begin

section \<open>Python values, exceptions and the external collaborators\<close>

text \<open>
  A Python \<open>str\<close> is a \<^typ>\<open>string\<close> whose characters are the code points below 256;
  text with a code point beyond that is outside this development. \<open>strip\<close> removes the
  white space of \<open>str.isspace\<close> in this range: the ASCII white space, U+0085 and U+00A0.
  \<open>upper\<close> maps \<open>a..z\<close> to \<open>A..Z\<close> and leaves every other character alone. Python's
  \<open>upper\<close> also changes letters beyond ASCII, but the program only asks whether the
  upper-cased text begins with \<open>SELECT\<close> or \<open>SELECT DISTINCT\<close> and whether it contains
  \<open>TOP\<close> or \<open>LIMIT\<close>, and in this range no letter beyond ASCII becomes an ASCII letter,
  except the sharp s, which becomes \<open>SS\<close>, a pair that none of these words contains.

  JSON numbers are integers here (no floating point).
\<close>

datatype pydate = Date nat nat nat

datatype pydatetime = DateTime nat nat nat nat nat nat nat

datatype pyval =
    PNone
  | PBool bool
  | PInt int
  | PStr string
  | PBytes "8 word list"
  | PDate pydate
  | PDateTime pydatetime
  | PList "pyval list"
  | PDict "(string \<times> pyval) list"

text \<open>
  Every exception is caught by an \<open>except Exception\<close> somewhere; what the program reads from
  it is \<open>str(e)\<close>. \<open>HTTPException\<close> is FastAPI's (its text is \<open>"<status>: <detail>"\<close>),
  \<open>DriverError\<close> is whatever pyodbc raises, \<open>ValueError\<close> is raised by database.py, the
  others are raised by the interpreter; their texts follow CPython's wording.
\<close>

datatype exn =
    HTTPException int string
  | DriverError string
  | TypeError string
  | AttributeError string
  | IndexError string
  | KeyError string
  | ValueError string

datatype event = Connect | Execute string "pyval list"

text \<open>
  The collaborators outside the program: \<open>connect\<close> is \<open>pyodbc.connect\<close> (\<open>None\<close>: a
  connection is returned; \<open>Some e\<close>: it raises \<open>e\<close>), \<open>run\<close> is \<open>cursor.execute\<close> followed by
  \<open>cursor.description\<close> and \<open>cursor.fetchall\<close> (the column names and the rows, or the
  exception one of them raises), \<open>now\<close> is \<open>datetime.now().isoformat()\<close>, \<open>dumps\<close> is
  \<open>json.dumps(_, indent=2)\<close> on a serialisable value, and \<open>py_repr\<close> is the interpreter's
  \<open>str()\<close> of a list or a dict, and \<open>decode_utf8\<close> is \<open>bytes.decode('utf-8')\<close> (\<open>None\<close>:
  it raises \<open>UnicodeDecodeError\<close>).
\<close>

record env =
  connect :: "exn option"
  run :: "string \<Rightarrow> pyval list \<Rightarrow> exn + (string list \<times> pyval list list)"
  now :: string
  dumps :: "pyval \<Rightarrow> string"
  py_repr :: "pyval \<Rightarrow> string"
  decode_utf8 :: "8 word list \<Rightarrow> string option"

section \<open>String primitives\<close>

definition is_space :: "char \<Rightarrow> bool" where
  "is_space c = (c \<in> set [CHR 0x09, CHR 0x0A, CHR 0x0B, CHR 0x0C, CHR 0x0D,
                           CHR 0x1C, CHR 0x1D, CHR 0x1E, CHR 0x1F, CHR '' '',
                           CHR 0x85, CHR 0xA0])"

definition strip :: "string \<Rightarrow> string" where
  "strip s = rev (dropWhile is_space (rev (dropWhile is_space s)))"

definition upper_char :: "char \<Rightarrow> char" where
  "upper_char c =
     (let n = (of_char c :: nat) in if 97 \<le> n \<and> n \<le> 122 then char_of (n - 32) else c)"

definition upper :: "string \<Rightarrow> string" where
  "upper s = map upper_char s"

definition startswith :: "string \<Rightarrow> string \<Rightarrow> bool" where
  "startswith s p = (take (length p) s = p)"

text \<open>\<open>contains p s\<close> is Python's \<open>p in s\<close>.\<close>

fun contains :: "string \<Rightarrow> string \<Rightarrow> bool" where
  "contains p [] = (p = [])"
| "contains p (c # cs) = (startswith (c # cs) p \<or> contains p cs)"

definition digit :: "nat \<Rightarrow> char" where
  "digit d = char_of (48 + d)"

fun digits :: "nat \<Rightarrow> string" where
  "digits n = (if n < 10 then [digit n] else digits (n div 10) @ [digit (n mod 10)])"

declare digits.simps [simp del]

definition str_int :: "int \<Rightarrow> string" where
  "str_int i = (if i < 0 then CHR ''-'' # digits (nat (- i)) else digits (nat i))"

text \<open>\<open>zfill w n\<close> is the format \<open>%0wd\<close> of a natural number.\<close>

definition zfill :: "nat \<Rightarrow> nat \<Rightarrow> string" where
  "zfill w n = replicate (w - length (digits n)) CHR ''0'' @ digits n"

definition isoformat_date :: "pydate \<Rightarrow> string" where
  "isoformat_date d = (case d of Date y m dd \<Rightarrow>
     zfill 4 y @ ''-'' @ zfill 2 m @ ''-'' @ zfill 2 dd)"

definition isoformat_datetime :: "pydatetime \<Rightarrow> string" where
  "isoformat_datetime t = (case t of DateTime y m dd hh mi ss us \<Rightarrow>
     zfill 4 y @ ''-'' @ zfill 2 m @ ''-'' @ zfill 2 dd @ ''T'' @
     zfill 2 hh @ '':'' @ zfill 2 mi @ '':'' @ zfill 2 ss @
     (if us = 0 then [] else ''.'' @ zfill 6 us))"

fun str_exn :: "exn \<Rightarrow> string" where
  "str_exn (HTTPException code detail) = str_int code @ '': '' @ detail"
| "str_exn (DriverError m) = m"
| "str_exn (TypeError m) = m"
| "str_exn (AttributeError m) = m"
| "str_exn (IndexError m) = m"
| "str_exn (KeyError m) = m"
| "str_exn (ValueError m) = m"

text \<open>
  \<open>quoted s\<close> is \<open>s\<close> between single quotes; \<open>type_name v\<close> is \<open>type(v).__name__\<close>. Both
  serve the texts of the exceptions that the interpreter raises.
\<close>

definition quoted :: "string \<Rightarrow> string" where
  "quoted s = [CHR 0x27] @ s @ [CHR 0x27]"

fun type_name :: "pyval \<Rightarrow> string" where
  "type_name PNone = ''NoneType''"
| "type_name (PBool b) = ''bool''"
| "type_name (PInt i) = ''int''"
| "type_name (PStr s) = ''str''"
| "type_name (PBytes b) = ''bytes''"
| "type_name (PDate d) = ''date''"
| "type_name (PDateTime t) = ''datetime''"
| "type_name (PList xs) = ''list''"
| "type_name (PDict kvs) = ''dict''"

text \<open>\<open>format_value\<close> is the f-string conversion \<open>f"{v}"\<close>.\<close>

definition format_value :: "env \<Rightarrow> pyval \<Rightarrow> string" where
  "format_value env v = (case v of
       PNone \<Rightarrow> ''None''
     | PBool b \<Rightarrow> (if b then ''True'' else ''False'')
     | PInt i \<Rightarrow> str_int i
     | PStr s \<Rightarrow> s
     | _ \<Rightarrow> py_repr env v)"

text \<open>\<open>py_gt v k\<close> is the comparison \<open>v > k\<close> against an integer literal.\<close>

definition py_gt :: "pyval \<Rightarrow> int \<Rightarrow> exn + bool" where
  "py_gt v k = (case v of
       PInt i \<Rightarrow> Inr (i > k)
     | PBool b \<Rightarrow> Inr ((if b then 1 else 0) > k)
     | _ \<Rightarrow> Inl (TypeError (quoted ''>'' @ '' not supported between instances of '' @
                          quoted (type_name v) @ '' and '' @ quoted ''int'')))"

section \<open>main.py: DatabaseManager.execute\_query\<close>

definition serialize_value :: "pyval \<Rightarrow> pyval" where
  "serialize_value v = (case v of
       PDateTime t \<Rightarrow> PStr (isoformat_datetime t)
     | PDate d \<Rightarrow> PStr (isoformat_date d)
     | _ \<Rightarrow> v)"

text \<open>
  The loop \<open>for i, value in enumerate(row): row_dict[columns[i]] = ...\<close>, which main.py and
  database.py share but for the conversion \<open>ser\<close> of a value: the columns are walked in
  step with the values, \<open>columns[i]\<close> past the end raises \<open>IndexError\<close>, and an assignment
  to a key already present overwrites it in place.
\<close>

fun serialize_row ::
  "(pyval \<Rightarrow> pyval) \<Rightarrow> string list \<Rightarrow> pyval list \<Rightarrow> (string \<times> pyval) list
     \<Rightarrow> exn + (string \<times> pyval) list" where
  "serialize_row ser columns [] row_dict = Inr row_dict"
| "serialize_row ser [] (v # vs) row_dict = Inl (IndexError ''list index out of range'')"
| "serialize_row ser (c # cs) (v # vs) row_dict =
     serialize_row ser cs vs (AList.update c (ser v) row_dict)"

fun serialize_rows ::
  "(pyval \<Rightarrow> pyval) \<Rightarrow> string list \<Rightarrow> pyval list list \<Rightarrow> exn + pyval list" where
  "serialize_rows ser columns [] = Inr []"
| "serialize_rows ser columns (row # rest) =
     (case serialize_row ser columns row [] of
        Inl e \<Rightarrow> Inl e
      | Inr row_dict \<Rightarrow>
          (case serialize_rows ser columns rest of
             Inl e \<Rightarrow> Inl e
           | Inr rows \<Rightarrow> Inr (PDict row_dict # rows)))"

text \<open>
  \<open>execute_query\<close> returns the rows, or the \<open>HTTPException\<close> it raises, together with what
  it did to the database: \<open>Connect\<close> for the call of \<open>pyodbc.connect\<close>, \<open>Execute q ps\<close> for
  \<open>cursor.execute\<close> (\<open>ps = []\<close> when it is called without parameters).
\<close>

definition execute_query :: "env \<Rightarrow> string \<Rightarrow> pyval list \<Rightarrow> (exn + pyval list) \<times> event list" where
  "execute_query env query params =
     (case connect env of
        Some e \<Rightarrow>
          (Inl (HTTPException 400 (''Database connection failed: '' @ str_exn e)), [Connect])
      | None \<Rightarrow>
          (case run env query params of
             Inl e \<Rightarrow>
               (Inl (HTTPException 400 (''Query execution failed: '' @ str_exn e)),
                [Connect, Execute query params])
           | Inr (columns, fetched) \<Rightarrow>
               (case serialize_rows serialize_value columns fetched of
                  Inl e \<Rightarrow>
                    (Inl (HTTPException 400 (''Query execution failed: '' @ str_exn e)),
                     [Connect, Execute query params])
                | Inr rows \<Rightarrow> (Inr rows, [Connect, Execute query params]))))"

section \<open>main.py: the tool handlers\<close>

text \<open>
  A handler returns its result dict, or the exception that leaves it, and the database
  events of the call. \<open>limit\<close> is whatever value the caller sent: the comparison
  \<open>limit > 1000\<close> raises \<open>TypeError\<close> on a value that is no number.
\<close>

definition query_database_tool :: "env \<Rightarrow> string \<Rightarrow> pyval \<Rightarrow> (exn + pyval) \<times> event list" where
  "query_database_tool env query limit =
     (let query_upper = upper (strip query) in
      if \<not> startswith query_upper ''SELECT'' then
        (Inr (PDict [(''error'', PStr ''Only SELECT queries are allowed for security reasons''),
                     (''query'', PStr query)]), [])
      else
        (case (if \<not> contains ''LIMIT'' query_upper \<and> \<not> contains ''TOP'' query_upper then
                 (case py_gt limit 1000 of
                    Inl e \<Rightarrow> Inl e
                  | Inr over \<Rightarrow>
                      (let limit1 = (if over then PInt 1000 else limit);
                           query1 = strip query
                       in Inr (if startswith query_upper ''SELECT DISTINCT''
                               then ''SELECT DISTINCT TOP '' @ format_value env limit1 @ '' '' @ drop 15 query1
                               else ''SELECT TOP '' @ format_value env limit1 @ '' '' @ drop 6 query1)))
               else Inr query) of
           Inl e \<Rightarrow> (Inl e, [])
         | Inr query2 \<Rightarrow>
             (case execute_query env query2 [] of
                (Inr results, tr) \<Rightarrow>
                  (Inr (PDict [(''success'', PBool True),
                               (''results'', PList results),
                               (''row_count'', PInt (int (length results))),
                               (''query'', PStr query2),
                               (''timestamp'', PStr (now env))]), tr)
              | (Inl e, tr) \<Rightarrow>
                  (Inr (PDict [(''success'', PBool False),
                               (''error'', PStr (str_exn e)),
                               (''query'', PStr query2),
                               (''timestamp'', PStr (now env))]), tr))))"

text \<open>
  The other handlers run their whole body inside \<open>try\<close>. \<open>then_db\<close> sequences two steps
  that may raise and appends their database events; \<open>getitem\<close> is \<open>row[key]\<close>.
\<close>

definition then_db ::
  "(exn + 'a) \<times> event list \<Rightarrow> ('a \<Rightarrow> (exn + 'b) \<times> event list) \<Rightarrow> (exn + 'b) \<times> event list" where
  "then_db m f = (case m of
       (Inl e, tr) \<Rightarrow> (Inl e, tr)
     | (Inr x, tr) \<Rightarrow> (case f x of (r, tr') \<Rightarrow> (r, tr @ tr')))"

definition getitem :: "pyval \<Rightarrow> string \<Rightarrow> exn + pyval" where
  "getitem row key = (case row of
       PDict kvs \<Rightarrow>
         (case map_of kvs key of
            None \<Rightarrow> Inl (KeyError (quoted key))
          | Some v \<Rightarrow> Inr v)
     | _ \<Rightarrow> Inl (TypeError (quoted (type_name row) @ '' object is not subscriptable'')))"

fun getitems :: "pyval list \<Rightarrow> string \<Rightarrow> exn + pyval list" where
  "getitems [] key = Inr []"
| "getitems (row # rest) key =
     (case getitem row key of
        Inl e \<Rightarrow> Inl e
      | Inr v \<Rightarrow> (case getitems rest key of Inl e \<Rightarrow> Inl e | Inr vs \<Rightarrow> Inr (v # vs)))"

definition tables_query :: string where
  "tables_query =
     ''\<newline>        SELECT TABLE_NAME \<newline>        FROM INFORMATION_SCHEMA.TABLES '' @
     ''\<newline>        WHERE TABLE_TYPE = '' @ [CHR 0x27] @ ''BASE TABLE'' @ [CHR 0x27] @
     ''\<newline>        ORDER BY TABLE_NAME\<newline>        ''"

definition columns_query :: string where
  "columns_query =
     ''\<newline>        SELECT \<newline>            COLUMN_NAME,\<newline>            DATA_TYPE,'' @
     ''\<newline>            IS_NULLABLE,\<newline>            COLUMN_DEFAULT,'' @
     ''\<newline>            CHARACTER_MAXIMUM_LENGTH\<newline>        FROM INFORMATION_SCHEMA.COLUMNS '' @
     ''\<newline>        WHERE TABLE_NAME = ?\<newline>        ORDER BY ORDINAL_POSITION\<newline>        ''"

definition list_tables_tool :: "env \<Rightarrow> (exn + pyval) \<times> event list" where
  "list_tables_tool env =
     (case then_db (execute_query env tables_query []) (\<lambda>results.
             (case getitems results ''TABLE_NAME'' of
                Inl e \<Rightarrow> (Inl e, [])
              | Inr tables \<Rightarrow>
                  (Inr (PDict [(''success'', PBool True),
                               (''tables'', PList tables),
                               (''table_count'', PInt (int (length tables))),
                               (''timestamp'', PStr (now env))]), []))) of
        (Inr result, tr) \<Rightarrow> (Inr result, tr)
      | (Inl e, tr) \<Rightarrow>
          (Inr (PDict [(''success'', PBool False),
                       (''error'', PStr (str_exn e)),
                       (''timestamp'', PStr (now env))]), tr))"

definition describe_table_tool :: "env \<Rightarrow> pyval \<Rightarrow> (exn + pyval) \<times> event list" where
  "describe_table_tool env table_name =
     (case execute_query env columns_query [table_name] of
        (Inr schema, tr) \<Rightarrow>
          (Inr (PDict [(''success'', PBool True),
                       (''table_name'', table_name),
                       (''columns'', PList schema),
                       (''column_count'', PInt (int (length schema))),
                       (''timestamp'', PStr (now env))]), tr)
      | (Inl e, tr) \<Rightarrow>
          (Inr (PDict [(''success'', PBool False),
                       (''error'', PStr (str_exn e)),
                       (''table_name'', table_name),
                       (''timestamp'', PStr (now env))]), tr))"

text \<open>\<open>first_field rs key\<close> is \<open>rs[0][key] if rs else "Unknown"\<close>.\<close>

definition first_field :: "pyval list \<Rightarrow> string \<Rightarrow> exn + pyval" where
  "first_field rs key = (case rs of [] \<Rightarrow> Inr (PStr ''Unknown'') | r # _ \<Rightarrow> getitem r key)"

definition get_database_info_tool :: "env \<Rightarrow> (exn + pyval) \<times> event list" where
  "get_database_info_tool env =
     (case then_db (execute_query env ''SELECT @@VERSION as version'' []) (\<lambda>version_result.
           then_db (execute_query env ''SELECT DB_NAME() as database_name'' []) (\<lambda>db_name_result.
           then_db (execute_query env ''SELECT @@SERVERNAME as server_name'' []) (\<lambda>server_name_result.
           then_db (execute_query env tables_query []) (\<lambda>table_results.
           then_db (first_field db_name_result ''database_name'', []) (\<lambda>database_name.
           then_db (first_field server_name_result ''server_name'', []) (\<lambda>server_name.
           then_db (first_field version_result ''version'', []) (\<lambda>version.
             (Inr (PDict [(''success'', PBool True),
                          (''database_name'', database_name),
                          (''server_name'', server_name),
                          (''version'', version),
                          (''table_count'', PInt (int (length table_results))),
                          (''timestamp'', PStr (now env))]), [])))))))) of
        (Inr result, tr) \<Rightarrow> (Inr result, tr)
      | (Inl e, tr) \<Rightarrow>
          (Inr (PDict [(''success'', PBool False),
                       (''error'', PStr (str_exn e)),
                       (''timestamp'', PStr (now env))]), tr))"

text \<open>\<open>truthy v\<close> is the truth value \<open>if v:\<close> tests.\<close>

definition truthy :: "pyval \<Rightarrow> bool" where
  "truthy v = (case v of
       PNone \<Rightarrow> False
     | PBool b \<Rightarrow> b
     | PInt i \<Rightarrow> i \<noteq> 0
     | PStr s \<Rightarrow> s \<noteq> []
     | PBytes b \<Rightarrow> b \<noteq> []
     | PList xs \<Rightarrow> xs \<noteq> []
     | PDict kvs \<Rightarrow> kvs \<noteq> []
     | _ \<Rightarrow> True)"

text \<open>\<open>join sep xs\<close> is \<open>sep.join(xs)\<close>.\<close>

fun join :: "string \<Rightarrow> string list \<Rightarrow> string" where
  "join sep [] = []"
| "join sep [x] = x"
| "join sep (x # y # ys) = x @ sep @ join sep (y # ys)"

text \<open>
  \<open>parameters\<close> is \<open>PNone\<close> when the caller gives none. A true value that is no dict has
  no \<open>items\<close>: the \<open>AttributeError\<close> is raised inside the \<open>try\<close>.
\<close>

definition execute_stored_procedure_tool ::
  "env \<Rightarrow> pyval \<Rightarrow> pyval \<Rightarrow> (exn + pyval) \<times> event list" where
  "execute_stored_procedure_tool env procedure_name parameters =
     (case (if truthy parameters then
              (case parameters of
                 PDict items \<Rightarrow>
                   (let param_list = map (\<lambda>(key, value). ''@'' @ key @ '' = ?'') items;
                        param_values = map (\<lambda>(key, value). value) items;
                        query = ''EXEC '' @ format_value env procedure_name @ '' '' @
                                join '', '' param_list
                    in execute_query env query param_values)
               | _ \<Rightarrow>
                   (Inl (AttributeError (quoted (type_name parameters) @
                                         '' object has no attribute '' @ quoted ''items'')), []))
            else execute_query env (''EXEC '' @ format_value env procedure_name) []) of
        (Inr results, tr) \<Rightarrow>
          (Inr (PDict [(''success'', PBool True),
                       (''procedure_name'', procedure_name),
                       (''parameters'', parameters),
                       (''results'', PList results),
                       (''row_count'', PInt (int (length results))),
                       (''timestamp'', PStr (now env))]), tr)
      | (Inl e, tr) \<Rightarrow>
          (Inr (PDict [(''success'', PBool False),
                       (''error'', PStr (str_exn e)),
                       (''procedure_name'', procedure_name),
                       (''parameters'', parameters),
                       (''timestamp'', PStr (now env))]), tr))"

section \<open>main.py: the tool registry and the JSON-RPC dispatcher\<close>

text \<open>
  The call \<open>tool_function(**arguments)\<close> binds the keys of \<open>arguments\<close> to the parameters
  of the handler: a key that names no parameter and a required parameter with no key
  raise \<open>TypeError\<close> before the handler runs. \<open>kwargs_error\<close> is that check.
\<close>

definition kwargs_error ::
  "string \<Rightarrow> string list \<Rightarrow> string list \<Rightarrow> (string \<times> pyval) list \<Rightarrow> exn option" where
  "kwargs_error fname names required kwargs =
     (case find (\<lambda>k. k \<notin> set names) (map fst kwargs) of
        Some k \<Rightarrow> Some (TypeError (fname @ ''() got an unexpected keyword argument '' @ quoted k))
      | None \<Rightarrow>
          (case find (\<lambda>k. map_of kwargs k = None) required of
             Some k \<Rightarrow>
               Some (TypeError (fname @ ''() missing 1 required positional argument: '' @ quoted k))
           | None \<Rightarrow> None))"

text \<open>
  \<open>query.strip()\<close> is the first thing \<open>query_database_tool\<close> does: a \<open>query\<close> that is no
  string raises \<open>AttributeError\<close> there.
\<close>

definition call_query_database :: "env \<Rightarrow> (string \<times> pyval) list \<Rightarrow> (exn + pyval) \<times> event list" where
  "call_query_database env kwargs =
     (case kwargs_error ''query_database_tool'' [''query'', ''limit''] [''query''] kwargs of
        Some e \<Rightarrow> (Inl e, [])
      | None \<Rightarrow>
          (case map_of kwargs ''query'' of
             Some (PStr query) \<Rightarrow>
               query_database_tool env query
                 (case map_of kwargs ''limit'' of None \<Rightarrow> PInt 100 | Some l \<Rightarrow> l)
           | Some v \<Rightarrow>
               (Inl (AttributeError (quoted (type_name v) @ '' object has no attribute '' @
                                     quoted ''strip'')), [])
           | None \<Rightarrow>
               (Inl (TypeError (''query_database_tool() missing 1 required positional argument: '' @
                                quoted ''query'')), [])))"

definition call_list_tables :: "env \<Rightarrow> (string \<times> pyval) list \<Rightarrow> (exn + pyval) \<times> event list" where
  "call_list_tables env kwargs =
     (case kwargs_error ''list_tables_tool'' [] [] kwargs of
        Some e \<Rightarrow> (Inl e, [])
      | None \<Rightarrow> list_tables_tool env)"

definition call_describe_table :: "env \<Rightarrow> (string \<times> pyval) list \<Rightarrow> (exn + pyval) \<times> event list" where
  "call_describe_table env kwargs =
     (case kwargs_error ''describe_table_tool'' [''table_name''] [''table_name''] kwargs of
        Some e \<Rightarrow> (Inl e, [])
      | None \<Rightarrow>
          describe_table_tool env
            (case map_of kwargs ''table_name'' of None \<Rightarrow> PNone | Some v \<Rightarrow> v))"

definition call_get_database_info :: "env \<Rightarrow> (string \<times> pyval) list \<Rightarrow> (exn + pyval) \<times> event list" where
  "call_get_database_info env kwargs =
     (case kwargs_error ''get_database_info_tool'' [] [] kwargs of
        Some e \<Rightarrow> (Inl e, [])
      | None \<Rightarrow> get_database_info_tool env)"

definition call_execute_stored_procedure ::
  "env \<Rightarrow> (string \<times> pyval) list \<Rightarrow> (exn + pyval) \<times> event list" where
  "call_execute_stored_procedure env kwargs =
     (case kwargs_error ''execute_stored_procedure_tool'' [''procedure_name'', ''parameters'']
             [''procedure_name''] kwargs of
        Some e \<Rightarrow> (Inl e, [])
      | None \<Rightarrow>
          execute_stored_procedure_tool env
            (case map_of kwargs ''procedure_name'' of None \<Rightarrow> PNone | Some v \<Rightarrow> v)
            (case map_of kwargs ''parameters'' of None \<Rightarrow> PNone | Some v \<Rightarrow> v))"

text \<open>
  An entry of the registry: the handler, with the name under which the interpreter
  reports it (module \<open>main\<close>), the description and the input schema.
\<close>

record tool =
  tool_function :: "env \<Rightarrow> (string \<times> pyval) list \<Rightarrow> (exn + pyval) \<times> event list"
  tool_function_name :: string
  tool_description :: string
  tool_parameters :: pyval

definition schema :: "(string \<times> pyval) list \<Rightarrow> string list \<Rightarrow> pyval" where
  "schema properties required =
     PDict [(''type'', PStr ''object''),
            (''properties'', PDict properties),
            (''required'', PList (map PStr required))]"

definition MCP_TOOLS :: "(string \<times> tool) list" where
  "MCP_TOOLS =
     [(''query_database'',
       \<lparr>tool_function = call_query_database,
        tool_function_name = ''main.query_database_tool'',
        tool_description = ''Execute a SQL query against the database.'',
        tool_parameters = schema
          [(''query'', PDict [(''type'', PStr ''string''),
                              (''description'', PStr ''SQL SELECT query to execute'')]),
           (''limit'', PDict [(''type'', PStr ''integer''),
                              (''description'', PStr ''Maximum rows to return''),
                              (''default'', PInt 100)])]
          [''query'']\<rparr>),
      (''list_tables'',
       \<lparr>tool_function = call_list_tables,
        tool_function_name = ''main.list_tables_tool'',
        tool_description = ''Get a list of all tables in the database.'',
        tool_parameters = schema [] []\<rparr>),
      (''describe_table'',
       \<lparr>tool_function = call_describe_table,
        tool_function_name = ''main.describe_table_tool'',
        tool_description = ''Get schema information for a specific table.'',
        tool_parameters = schema
          [(''table_name'', PDict [(''type'', PStr ''string''),
                                   (''description'', PStr ''Name of the table to describe'')])]
          [''table_name'']\<rparr>),
      (''get_database_info'',
       \<lparr>tool_function = call_get_database_info,
        tool_function_name = ''main.get_database_info_tool'',
        tool_description = ''Get general information about the connected database.'',
        tool_parameters = schema [] []\<rparr>),
      (''execute_stored_procedure'',
       \<lparr>tool_function = call_execute_stored_procedure,
        tool_function_name = ''main.execute_stored_procedure_tool'',
        tool_description = ''Execute a stored procedure.'',
        tool_parameters = schema
          [(''procedure_name'', PDict [(''type'', PStr ''string''),
                                       (''description'', PStr ''Name of the stored procedure'')]),
           (''parameters'', PDict [(''type'', PStr ''object''),
                                   (''description'', PStr ''Parameters for the stored procedure'')])]
          [''procedure_name'']\<rparr>)]"

text \<open>
  \<open>json.dumps\<close> raises \<open>TypeError\<close> on a value that holds bytes, a date or a time; on any
  other value it is the collaborator \<open>dumps\<close>.
\<close>

fun first_some :: "'a option list \<Rightarrow> 'a option" where
  "first_some [] = None"
| "first_some (None # xs) = first_some xs"
| "first_some (Some x # xs) = Some x"

text \<open>\<open>json_bad v\<close> is the first value inside \<open>v\<close> that has no JSON form, if there is one.\<close>

fun json_bad :: "pyval \<Rightarrow> pyval option" where
  "json_bad (PBytes b) = Some (PBytes b)"
| "json_bad (PDate d) = Some (PDate d)"
| "json_bad (PDateTime t) = Some (PDateTime t)"
| "json_bad (PList xs) = first_some (map json_bad xs)"
| "json_bad (PDict kvs) = first_some (map json_bad (map snd kvs))"
| "json_bad v = None"

definition json_dumps :: "env \<Rightarrow> pyval \<Rightarrow> exn + string" where
  "json_dumps env v =
     (case json_bad v of
        None \<Rightarrow> Inr (dumps env v)
      | Some b \<Rightarrow>
          Inl (TypeError (''Object of type '' @ type_name b @ '' is not JSON serializable'')))"

text \<open>\<open>request_id\<close> is \<open>request.get("id", 1)\<close>.\<close>

definition request_id :: "(string \<times> pyval) list \<Rightarrow> pyval" where
  "request_id request = (case map_of request ''id'' of None \<Rightarrow> PInt 1 | Some v \<Rightarrow> v)"

definition rpc_error :: "(string \<times> pyval) list \<Rightarrow> int \<Rightarrow> string \<Rightarrow> pyval" where
  "rpc_error request code message =
     PDict [(''jsonrpc'', PStr ''2.0''),
            (''error'', PDict [(''code'', PInt code), (''message'', PStr message)]),
            (''id'', request_id request)]"

definition rpc_result :: "(string \<times> pyval) list \<Rightarrow> pyval \<Rightarrow> pyval" where
  "rpc_result request result =
     PDict [(''jsonrpc'', PStr ''2.0''), (''result'', result), (''id'', request_id request)]"

definition tool_content :: "string \<Rightarrow> bool \<Rightarrow> pyval" where
  "tool_content text is_error =
     PDict [(''content'', PList [PDict [(''type'', PStr ''text''), (''text'', PStr text)]]),
            (''isError'', PBool is_error)]"

definition capabilities :: pyval where
  "capabilities =
     PDict [(''protocolVersion'', PStr ''2024-11-05''),
            (''capabilities'',
               PDict [(''tools'', PDict [(''listChanged'', PBool True)]),
                      (''resources'', PDict []),
                      (''prompts'', PDict [])]),
            (''serverInfo'',
               PDict [(''name'', PStr ''SQL Server MCP''),
                      (''version'', PStr ''1.0.0''),
                      (''description'',
                         PStr ''Model Context Protocol server for MS SQL Server database operations'')])]"

text \<open>\<open>invoke config env arguments\<close> is the call \<open>tool_function(**arguments)\<close>.\<close>

definition invoke :: "tool \<Rightarrow> env \<Rightarrow> pyval \<Rightarrow> (exn + pyval) \<times> event list" where
  "invoke config env arguments = (case arguments of
       PDict kwargs \<Rightarrow> tool_function config env kwargs
     | _ \<Rightarrow>
         (Inl (TypeError (tool_function_name config @
                          ''() argument after ** must be a mapping, not '' @
                          type_name arguments)), []))"

text \<open>
  The handler of \<open>POST /mcp\<close>. The request is the JSON object of the body. What the outer
  \<open>except\<close> catches is written out where it can be raised: \<open>params.get\<close> on a \<open>params\<close> that
  is no dict, and the membership test on a tool name that cannot be hashed.
\<close>

definition mcp_handler :: "env \<Rightarrow> (string \<times> pyval) list \<Rightarrow> pyval \<times> event list" where
  "mcp_handler env request =
     (if map_of request ''method'' = Some (PStr ''tools/list'') then
        (rpc_result request
           (PDict [(''tools'',
              PList (map (\<lambda>(name, config).
                       PDict [(''name'', PStr name),
                              (''description'', PStr (tool_description config)),
                              (''inputSchema'', tool_parameters config)]) MCP_TOOLS))]), [])
      else if map_of request ''method'' = Some (PStr ''tools/call'') then
        (case (case map_of request ''params'' of None \<Rightarrow> PDict [] | Some p \<Rightarrow> p) of
           PDict params \<Rightarrow>
             (let tool_name = (case map_of params ''name'' of None \<Rightarrow> PNone | Some n \<Rightarrow> n);
                  arguments = (case map_of params ''arguments'' of None \<Rightarrow> PDict [] | Some a \<Rightarrow> a)
              in case tool_name of
                   PList xs \<Rightarrow> (rpc_error request (- 1) (''unhashable type: '' @ quoted ''list''), [])
                 | PDict kvs \<Rightarrow> (rpc_error request (- 1) (''unhashable type: '' @ quoted ''dict''), [])
                 | _ \<Rightarrow>
                   (case (case tool_name of PStr name \<Rightarrow> map_of MCP_TOOLS name | _ \<Rightarrow> None) of
                      None \<Rightarrow>
                        (rpc_error request (- 1)
                           (''Tool '' @ quoted (format_value env tool_name) @ '' not found''), [])
                    | Some config \<Rightarrow>
                        (case invoke config env arguments of
                           (Inr result, tr) \<Rightarrow>
                             (case json_dumps env result of
                                Inr text \<Rightarrow> (rpc_result request (tool_content text False), tr)
                              | Inl e \<Rightarrow>
                                  (rpc_result request
                                     (tool_content
                                        (dumps env (PDict [(''error'', PStr (str_exn e))])) True), tr))
                         | (Inl e, tr) \<Rightarrow>
                             (rpc_result request
                                (tool_content
                                   (dumps env (PDict [(''error'', PStr (str_exn e))])) True), tr))))
         | p \<Rightarrow>
             (rpc_error request (- 1)
                (quoted (type_name p) @ '' object has no attribute '' @ quoted ''get''), []))
      else if map_of request ''method'' = Some (PStr ''initialize'') then
        (rpc_result request capabilities, [])
      else
        (rpc_error request (- 32601)
           (''Method '' @
            quoted (format_value env
                      (case map_of request ''method'' of None \<Rightarrow> PNone | Some m \<Rightarrow> m)) @
            '' not found''), []))"

section \<open>database.py: QueryExecutor.execute\_select\_query\<close>

record QueryExecutor =
  max_rows :: int
  enable_write_ops :: bool

definition serialize_value_select :: "env \<Rightarrow> pyval \<Rightarrow> pyval" where
  "serialize_value_select env v = (case v of
       PDateTime t \<Rightarrow> PStr (isoformat_datetime t)
     | PDate d \<Rightarrow> PStr (isoformat_date d)
     | PBytes b \<Rightarrow>
         (case decode_utf8 env b of
            Some s \<Rightarrow> PStr s
          | None \<Rightarrow> PStr (''<binary data: '' @ str_int (int (length b)) @ '' bytes>''))
     | _ \<Rightarrow> v)"

text \<open>
  \<open>limit or self.max_rows\<close> takes \<open>max_rows\<close> for \<open>None\<close> and for \<open>0\<close>. The slices
  \<open>query[15:]\<close> and \<open>query[6:]\<close> are taken from the query as it was given, not from the
  stripped one. The connection's context manager raises what \<open>pyodbc.connect\<close> raises.
\<close>

definition execute_select_query ::
  "QueryExecutor \<Rightarrow> env \<Rightarrow> string \<Rightarrow> pyval list \<Rightarrow> int option \<Rightarrow> (exn + pyval list) \<times> event list" where
  "execute_select_query self env query params limit =
     (let query_upper = upper (strip query) in
      if \<not> startswith query_upper ''SELECT'' then
        (Inl (ValueError ''Only SELECT queries are allowed''), [])
      else
        (let effective_limit =
               min (case limit of None \<Rightarrow> max_rows self
                    | Some l \<Rightarrow> if l = 0 then max_rows self else l) (max_rows self);
             query1 =
               (if \<not> contains ''TOP '' query_upper \<and> \<not> contains ''LIMIT '' query_upper then
                  (if startswith query_upper ''SELECT DISTINCT''
                   then ''SELECT DISTINCT TOP '' @ str_int effective_limit @ '' '' @ drop 15 query
                   else ''SELECT TOP '' @ str_int effective_limit @ '' '' @ drop 6 query)
                else query)
         in case connect env of
              Some e \<Rightarrow> (Inl e, [Connect])
            | None \<Rightarrow>
                (case run env query1 params of
                   Inl e \<Rightarrow> (Inl e, [Connect, Execute query1 params])
                 | Inr (columns, fetched) \<Rightarrow>
                     (case serialize_rows (serialize_value_select env) columns fetched of
                        Inl e \<Rightarrow> (Inl e, [Connect, Execute query1 params])
                      | Inr results \<Rightarrow> (Inr results, [Connect, Execute query1 params])))))"

section \<open>A sample environment\<close>

text \<open>
  A database that accepts every connection and answers every statement with one row
  \<open>n = 1\<close>, a fixed clock, and stand-ins for the three library functions; \<open>sample_decode\<close>
  decodes ASCII bytes and rejects every other byte.
\<close>

definition sample_decode :: "8 word list \<Rightarrow> string option" where
  "sample_decode b =
     (if list_all (\<lambda>w. unat w < 128) b then Some (map (\<lambda>w. char_of (unat w)) b) else None)"

definition sample_env :: env where
  "sample_env =
     \<lparr>connect = None,
      run = (\<lambda>query params. Inr ([''n''], [[PInt 1]])),
      now = ''2024-01-01T00:00:00'',
      dumps = (\<lambda>v. case v of PDict [(k, PStr s)] \<Rightarrow> k @ '': '' @ s | _ \<Rightarrow> ''{}''),
      py_repr = (\<lambda>v. ''[]''),
      decode_utf8 = sample_decode\<rparr>"

text \<open>
  Two variants: a database whose answer is one row with a binary value of four bytes that
  are no UTF-8, and a database that refuses the connection.
\<close>

definition binary_env :: env where
  "binary_env =
     sample_env\<lparr>run := (\<lambda>query params. Inr ([''payload''], [[PBytes [0xFF, 0xFE, 0xFD, 0xFC]]]))\<rparr>"


section \<open>The shape of a handler's result\<close>




section \<open>The classification of a query in the words of the specification\<close>

text \<open>
  The specification derives the classification of a query from the first keyword of its
  trimmed, case-normalised text. \<open>first_keyword\<close> is the longest run of letters, digits and
  underscores at the start of that text; \<open>classify\<close> names the statement kind it spells.
  The program has no such function: its test is \<open>startswith\<close> on the upper-cased text.
\<close>

datatype classification = Select | Insert | Update | Delete | Exec | Unknown

definition is_word_char :: "char \<Rightarrow> bool" where
  "is_word_char c =
     (let n = (of_char c :: nat)
      in (65 \<le> n \<and> n \<le> 90) \<or> (97 \<le> n \<and> n \<le> 122) \<or> (48 \<le> n \<and> n \<le> 57) \<or> n = 95)"

definition first_keyword :: "string \<Rightarrow> string" where
  "first_keyword query = takeWhile is_word_char (upper (strip query))"

definition classify :: "string \<Rightarrow> classification" where
  "classify query =
     (let k = first_keyword query
      in if k = ''SELECT'' then Select
         else if k = ''INSERT'' then Insert
         else if k = ''UPDATE'' then Update
         else if k = ''DELETE'' then Delete
         else if k = ''EXEC'' \<or> k = ''EXECUTE'' then Exec
         else Unknown)"

section \<open>The query tool rejects what is not a SELECT\<close>

lemma takeWhile_is_prefix: "take (length (takeWhile P xs)) xs = takeWhile P xs"
  by (induction xs) simp_all

text \<open>
  A query that the specification classifies as a SELECT passes the program's test; the
  converse fails, as the second theorem below shows.
\<close>

lemma classify_select_startswith:
  assumes "classify query = Select"
  shows "startswith (upper (strip query)) ''SELECT''"
proof -
  from assms have k: "first_keyword query = ''SELECT''"
    by (simp add: classify_def Let_def split: if_splits)
  have "take (length (first_keyword query)) (upper (strip query)) = first_keyword query"
    unfolding first_keyword_def by (rule takeWhile_is_prefix)
  with k show ?thesis
    by (simp add: startswith_def)
qed




section \<open>Auxiliary facts\<close>

lemma execute_query_events:
  "connect env = None \<Longrightarrow> snd (execute_query env q ps) = [Connect, Execute q ps]"
  by (simp add: execute_query_def split: sum.splits prod.splits)

lemma query_database_tool_rewrite:
  assumes "startswith (upper (strip query)) ''SELECT''"
      and "\<not> contains ''LIMIT'' (upper (strip query))"
      and "\<not> contains ''TOP'' (upper (strip query))"
  shows "snd (query_database_tool env query (PInt L)) =
           snd (execute_query env
                  (if startswith (upper (strip query)) ''SELECT DISTINCT''
                   then ''SELECT DISTINCT TOP '' @ str_int (min L 1000) @ '' '' @ drop 15 (strip query)
                   else ''SELECT TOP '' @ str_int (min L 1000) @ '' '' @ drop 6 (strip query)) [])"
  using assms
  by (simp add: query_database_tool_def Let_def py_gt_def format_value_def min_def
           split: sum.splits prod.splits)

lemma str_int_100: "str_int 100 = ''100''"
  by code_simp

lemma str_int_10: "str_int 10 = ''10''"
  by code_simp

lemma call_query_database_default:
  "call_query_database env [(''query'', PStr query)] = query_database_tool env query (PInt 100)"
  by (simp add: call_query_database_def kwargs_error_def)

section \<open>The row limit of the query tool\<close>

text \<open>
  C2 (as amended). When \<open>query_database\<close> is called with no \<open>limit\<close> argument on a SELECT
  query whose upper-cased text contains neither \<open>TOP\<close> nor \<open>LIMIT\<close>, the row limit is the
  default 100 of the handler: the statement executed is \<open>SELECT TOP 100\<close> (or
  \<open>SELECT DISTINCT TOP 100\<close>) and a space, followed by the stripped query from its 7th
  (16th) character on.
\<close>

theorem query_database_default_limit:
  assumes "startswith (upper (strip query)) ''SELECT''"
      and "\<not> contains ''LIMIT'' (upper (strip query))"
      and "\<not> contains ''TOP'' (upper (strip query))"
      and "connect env = None"
  shows "snd (call_query_database env [(''query'', PStr query)]) =
           [Connect,
            Execute (if startswith (upper (strip query)) ''SELECT DISTINCT''
                     then ''SELECT DISTINCT TOP 100 '' @ drop 15 (strip query)
                     else ''SELECT TOP 100 '' @ drop 6 (strip query)) []]"
  using query_database_tool_rewrite [OF assms(1-3), of env 100] execute_query_events [OF assms(4)]
  by (simp add: call_query_database_default str_int_100)

theorem query_database_default_limit_witness:
  "startswith (upper (strip ''SELECT DISTINCT x FROM t'')) ''SELECT'' \<and>
   \<not> contains ''LIMIT'' (upper (strip ''SELECT DISTINCT x FROM t'')) \<and>
   \<not> contains ''TOP'' (upper (strip ''SELECT DISTINCT x FROM t'')) \<and>
   connect sample_env = None \<and>
   snd (call_query_database sample_env [(''query'', PStr ''SELECT DISTINCT x FROM t'')]) =
     [Connect, Execute ''SELECT DISTINCT TOP 100  x FROM t'' []]"
proof -
  have h1: "startswith (upper (strip ''SELECT DISTINCT x FROM t'')) ''SELECT''"
    by code_simp
  have h2: "\<not> contains ''LIMIT'' (upper (strip ''SELECT DISTINCT x FROM t''))"
    by code_simp
  have h3: "\<not> contains ''TOP'' (upper (strip ''SELECT DISTINCT x FROM t''))"
    by code_simp
  have h4: "connect sample_env = None"
    by (simp add: sample_env_def)
  have d: "startswith (upper (strip ''SELECT DISTINCT x FROM t'')) ''SELECT DISTINCT''"
    by code_simp
  have s: "drop 15 (strip ''SELECT DISTINCT x FROM t'') = '' x FROM t''"
    by code_simp
  from query_database_default_limit [OF h1 h2 h3 h4] d s h1 h2 h3 h4 show ?thesis
    by simp
qed

text \<open>
  The claim as it was stated fails: with the default limit, the call
  \<open>query_database("SELECT DISTINCT x FROM t")\<close> executes a statement limited to 100 rows,
  not \<open>SELECT DISTINCT TOP 1000 x FROM t\<close>.
\<close>

theorem query_database_default_limit_counterexample:
  "snd (call_query_database sample_env [(''query'', PStr ''SELECT DISTINCT x FROM t'')]) =
     [Connect, Execute ''SELECT DISTINCT TOP 100  x FROM t'' []] \<and>
   snd (call_query_database sample_env [(''query'', PStr ''SELECT DISTINCT x FROM t'')]) \<noteq>
     [Connect, Execute ''SELECT DISTINCT TOP 1000 x FROM t'' []]"
  by code_simp

text \<open>
  C3 (as amended). For every SELECT query whose upper-cased text contains neither \<open>TOP\<close>
  nor \<open>LIMIT\<close> and every integer limit \<open>L\<close>, \<open>query_database\<close> executes the text
  \<open>SELECT TOP n\<close> and a space, with \<open>n = min L 1000\<close>, followed by the stripped query from
  its 7th character on (the rest of the query, with the white space that followed its
  keyword); when the upper-cased query begins with \<open>SELECT DISTINCT\<close> the text is
  \<open>SELECT DISTINCT TOP n\<close> and a space, followed by the stripped query from its 16th
  character on.
\<close>

theorem query_database_explicit_limit:
  assumes "startswith (upper (strip query)) ''SELECT''"
      and "\<not> contains ''LIMIT'' (upper (strip query))"
      and "\<not> contains ''TOP'' (upper (strip query))"
      and "connect env = None"
  shows "snd (query_database_tool env query (PInt L)) =
           [Connect,
            Execute (if startswith (upper (strip query)) ''SELECT DISTINCT''
                     then ''SELECT DISTINCT TOP '' @ str_int (min L 1000) @ '' '' @
                          drop 15 (strip query)
                     else ''SELECT TOP '' @ str_int (min L 1000) @ '' '' @
                          drop 6 (strip query)) []]"
  using query_database_tool_rewrite [OF assms(1-3)] execute_query_events [OF assms(4)]
  by simp

theorem query_database_explicit_limit_witness:
  "startswith (upper (strip ''SELECT * FROM t'')) ''SELECT'' \<and>
   \<not> contains ''LIMIT'' (upper (strip ''SELECT * FROM t'')) \<and>
   \<not> contains ''TOP'' (upper (strip ''SELECT * FROM t'')) \<and>
   connect sample_env = None \<and>
   snd (query_database_tool sample_env ''SELECT * FROM t'' (PInt 10)) =
     [Connect, Execute ''SELECT TOP 10  * FROM t'' []]"
proof -
  have h1: "startswith (upper (strip ''SELECT * FROM t'')) ''SELECT''"
    by code_simp
  have h2: "\<not> contains ''LIMIT'' (upper (strip ''SELECT * FROM t''))"
    by code_simp
  have h3: "\<not> contains ''TOP'' (upper (strip ''SELECT * FROM t''))"
    by code_simp
  have h4: "connect sample_env = None"
    by (simp add: sample_env_def)
  have d: "\<not> startswith (upper (strip ''SELECT * FROM t'')) ''SELECT DISTINCT''"
    by code_simp
  have s: "drop 6 (strip ''SELECT * FROM t'') = '' * FROM t''"
    by code_simp
  from query_database_explicit_limit [OF h1 h2 h3 h4, of 10] d s h1 h2 h3 h4 show ?thesis
    by (simp add: str_int_10)
qed

text \<open>
  The claim as it was stated fails at its own example: \<open>query_database("SELECT * FROM t",
  limit=10)\<close> executes \<open>SELECT TOP 10\<close>, two spaces and \<open>* FROM t\<close>; the text with one
  space is not what reaches the database.
\<close>

theorem query_database_explicit_limit_counterexample:
  "snd (query_database_tool sample_env ''SELECT * FROM t'' (PInt 10)) =
     [Connect, Execute ''SELECT TOP 10  * FROM t'' []] \<and>
   snd (query_database_tool sample_env ''SELECT * FROM t'' (PInt 10)) \<noteq>
     [Connect, Execute ''SELECT TOP 10 * FROM t'' []]"
  by code_simp


text \<open>
  C5 (as amended). When a TOP clause is inserted, it goes after \<open>SELECT DISTINCT\<close> exactly
  when the upper-cased, stripped query begins with the 15 characters \<open>SELECT DISTINCT\<close>;
  what follows the clause is then the stripped query from its 16th character on. The test
  is a prefix match and looks at no token boundary. A query without that prefix is
  rewritten as a plain SELECT, with the clause after its first six characters.
\<close>

theorem distinct_prefix_detection:
  assumes "startswith (upper (strip query)) ''SELECT''"
      and "\<not> contains ''LIMIT'' (upper (strip query))"
      and "\<not> contains ''TOP'' (upper (strip query))"
      and "connect env = None"
  shows "(startswith (upper (strip query)) ''SELECT DISTINCT'' \<longleftrightarrow>
            snd (query_database_tool env query (PInt L)) =
              [Connect, Execute (''SELECT DISTINCT TOP '' @ str_int (min L 1000) @ '' '' @
                                 drop 15 (strip query)) []]) \<and>
         (\<not> startswith (upper (strip query)) ''SELECT DISTINCT'' \<longleftrightarrow>
            snd (query_database_tool env query (PInt L)) =
              [Connect, Execute (''SELECT TOP '' @ str_int (min L 1000) @ '' '' @
                                 drop 6 (strip query)) []])"
  using assms
  by (auto simp add: query_database_tool_def Let_def py_gt_def format_value_def min_def
        execute_query_def split: sum.splits prod.splits)

theorem distinct_prefix_detection_witness:
  "startswith (upper (strip ''select distinct x from t'')) ''SELECT'' \<and>
   \<not> contains ''LIMIT'' (upper (strip ''select distinct x from t'')) \<and>
   \<not> contains ''TOP'' (upper (strip ''select distinct x from t'')) \<and>
   connect sample_env = None \<and>
   startswith (upper (strip ''select distinct x from t'')) ''SELECT DISTINCT'' \<and>
   snd (query_database_tool sample_env ''select distinct x from t'' (PInt 10)) =
     [Connect, Execute ''SELECT DISTINCT TOP 10  x from t'' []]"
proof -
  have h1: "startswith (upper (strip ''select distinct x from t'')) ''SELECT''"
    by code_simp
  have h2: "\<not> contains ''LIMIT'' (upper (strip ''select distinct x from t''))"
    by code_simp
  have h3: "\<not> contains ''TOP'' (upper (strip ''select distinct x from t''))"
    by code_simp
  have h4: "connect sample_env = None"
    by (simp add: sample_env_def)
  have d: "startswith (upper (strip ''select distinct x from t'')) ''SELECT DISTINCT''"
    by code_simp
  have s: "drop 15 (strip ''select distinct x from t'') = '' x from t''"
    by code_simp
  from distinct_prefix_detection [OF h1 h2 h3 h4, of 10] d s h1 h2 h3 h4 show ?thesis
    by (simp add: str_int_10)
qed

text \<open>
  The claim as it was stated fails at its own example: the upper-cased text of
  \<open>SELECT DISTINCTIVE FROM t\<close> begins with \<open>SELECT DISTINCT\<close>, so the query is taken for a
  DISTINCT query and the clause is inserted inside the column name.
\<close>

theorem distinct_prefix_detection_counterexample:
  "startswith (upper (strip ''SELECT DISTINCTIVE FROM t'')) ''SELECT DISTINCT'' \<and>
   snd (query_database_tool sample_env ''SELECT DISTINCTIVE FROM t'' (PInt 10)) =
     [Connect, Execute ''SELECT DISTINCT TOP 10 IVE FROM t'' []] \<and>
   snd (query_database_tool sample_env ''SELECT DISTINCTIVE FROM t'' (PInt 10)) \<noteq>
     [Connect, Execute ''SELECT TOP 10  DISTINCTIVE FROM t'' []]"
  by code_simp

section \<open>Queries that already carry a limit\<close>

lemma rewritten_differs:
  assumes "k < length p"
  shows "p @ n @ '' '' @ drop k query \<noteq> query"
proof
  assume "p @ n @ '' '' @ drop k query = query"
  then have "length (p @ n @ '' '' @ drop k query) = length query"
    by simp
  with assms show False
    by simp
qed

text \<open>
  What database.py does: under its two tests, which include the trailing space,
  \<open>execute_select_query\<close> executes a SELECT query as it was given exactly when its
  upper-cased text contains \<open>TOP\<close> or \<open>LIMIT\<close> followed by a space.
\<close>

lemma execute_select_query_unmodified_iff:
  assumes "startswith (upper (strip query)) ''SELECT''"
      and "connect env = None"
  shows "snd (execute_select_query self env query params limit) = [Connect, Execute query params]
         \<longleftrightarrow> contains ''TOP '' (upper (strip query)) \<or> contains ''LIMIT '' (upper (strip query))"
proof -
  have a: "''SELECT DISTINCT TOP '' @ n @ '' '' @ drop 15 query \<noteq> query" for n
    by (rule rewritten_differs) simp
  have b: "''SELECT TOP '' @ n @ '' '' @ drop 6 query \<noteq> query" for n
    by (rule rewritten_differs) simp
  show ?thesis
    using assms a b
    by (auto simp add: execute_select_query_def Let_def split: sum.splits prod.splits)
qed

lemma execute_select_query_laptops:
  "snd (execute_select_query \<lparr>max_rows = 1000, enable_write_ops = False\<rparr> sample_env
          ''SELECT * FROM laptops'' [] (Some 10)) =
     [Connect, Execute ''SELECT TOP 10  * FROM laptops'' []]"
  by code_simp

text \<open>
  What main.py does: under its two tests, which have no trailing space, the query tool
  executes a SELECT query as it was given exactly when its upper-cased text contains
  \<open>TOP\<close> or \<open>LIMIT\<close> anywhere, inside a longer word too. The text it executes otherwise
  begins with \<open>SELECT TOP\<close> or \<open>SELECT DISTINCT TOP\<close> and so differs from every query that
  took this branch.
\<close>

lemma strip_keeps_prefix:
  assumes "p \<noteq> []" and "\<not> is_space (hd p)" and "\<not> is_space (last p)"
  shows "strip (p @ rest) = p @ rev (dropWhile is_space (rev rest))"
proof -
  from assms(1,2) have front: "dropWhile is_space (p @ rest) = p @ rest"
    by (cases p) simp_all
  from assms(1,3) have rear: "dropWhile is_space (rev p) = rev p"
    by (cases p rule: rev_cases) simp_all
  have mid: "dropWhile is_space (rev rest @ rev p) = dropWhile is_space (rev rest) @ rev p"
    by (simp add: dropWhile_append rear)
  have "strip (p @ rest) = rev (dropWhile is_space (rev rest @ rev p))"
    by (simp only: strip_def front rev_append)
  then show ?thesis
    by (simp add: mid)
qed

lemma upper_select_top: "upper ''SELECT TOP'' = ''SELECT TOP''"
  by code_simp

lemma upper_select_distinct_top: "upper ''SELECT DISTINCT TOP'' = ''SELECT DISTINCT TOP''"
  by code_simp

lemma not_space_S: "\<not> is_space CHR ''S''"
  by code_simp

lemma not_space_P: "\<not> is_space CHR ''P''"
  by code_simp

lemma rewritten_has_top:
  "contains ''TOP'' (upper (strip (''SELECT TOP '' @ rest)))"
  "contains ''TOP'' (upper (strip (''SELECT DISTINCT TOP '' @ rest)))"
proof -
  have a: "strip (''SELECT TOP'' @ ('' '' @ rest)) =
             ''SELECT TOP'' @ rev (dropWhile is_space (rev ('' '' @ rest)))"
    by (rule strip_keeps_prefix) (simp_all add: not_space_S not_space_P)
  have b: "strip (''SELECT DISTINCT TOP'' @ ('' '' @ rest)) =
             ''SELECT DISTINCT TOP'' @ rev (dropWhile is_space (rev ('' '' @ rest)))"
    by (rule strip_keeps_prefix) (simp_all add: not_space_S not_space_P)
  have ua: "upper (''SELECT TOP'' @ zs) = ''SELECT TOP'' @ upper zs" for zs
    by (simp only: upper_def map_append upper_select_top [unfolded upper_def])
  have ub: "upper (''SELECT DISTINCT TOP'' @ zs) = ''SELECT DISTINCT TOP'' @ upper zs" for zs
    by (simp only: upper_def map_append upper_select_distinct_top [unfolded upper_def])
  have ca: "contains ''TOP'' (''SELECT TOP'' @ zs)" for zs
    by (simp add: startswith_def)
  have cb: "contains ''TOP'' (''SELECT DISTINCT TOP'' @ zs)" for zs
    by (simp add: startswith_def)
  have ea: "''SELECT TOP '' @ rest = ''SELECT TOP'' @ ('' '' @ rest)"
    by simp
  have eb: "''SELECT DISTINCT TOP '' @ rest = ''SELECT DISTINCT TOP'' @ ('' '' @ rest)"
    by simp
  show "contains ''TOP'' (upper (strip (''SELECT TOP '' @ rest)))"
    by (simp only: ea a ua ca)
  show "contains ''TOP'' (upper (strip (''SELECT DISTINCT TOP '' @ rest)))"
    by (simp only: eb b ub cb)
qed


lemma query_database_tool_rewritten_text:
  assumes "startswith (upper (strip query)) ''SELECT''"
      and "\<not> contains ''LIMIT'' (upper (strip query))"
      and "\<not> contains ''TOP'' (upper (strip query))"
      and "connect env = None"
  shows "\<exists>rest. snd (query_database_tool env query (PInt L)) =
                  [Connect, Execute (''SELECT TOP '' @ rest) []] \<or>
                snd (query_database_tool env query (PInt L)) =
                  [Connect, Execute (''SELECT DISTINCT TOP '' @ rest) []]"
  using assms
  by (simp add: query_database_tool_def Let_def py_gt_def format_value_def
        execute_query_def split: sum.splits prod.splits)


lemma query_database_tool_keeps_limited:
  assumes "startswith (upper (strip query)) ''SELECT''"
      and "connect env = None"
      and "contains ''LIMIT'' (upper (strip query)) \<or> contains ''TOP'' (upper (strip query))"
  shows "snd (query_database_tool env query (PInt L)) = [Connect, Execute query []]"
proof -
  from assms(3,1) have
    "query_database_tool env query (PInt L) =
       (case execute_query env query [] of
          (Inr results, tr) \<Rightarrow>
            (Inr (PDict [(''success'', PBool True),
                         (''results'', PList results),
                         (''row_count'', PInt (int (length results))),
                         (''query'', PStr query),
                         (''timestamp'', PStr (now env))]), tr)
        | (Inl e, tr) \<Rightarrow>
            (Inr (PDict [(''success'', PBool False),
                         (''error'', PStr (str_exn e)),
                         (''query'', PStr query),
                         (''timestamp'', PStr (now env))]), tr))"
    by (elim disjE) (simp_all add: query_database_tool_def Let_def)
  with execute_query_events [OF assms(2), of query "[]"] show ?thesis
    by (simp split: prod.splits sum.splits)
qed

lemma query_database_tool_unmodified_iff:
  assumes "startswith (upper (strip query)) ''SELECT''"
      and "connect env = None"
  shows "snd (query_database_tool env query (PInt L)) = [Connect, Execute query []]
         \<longleftrightarrow> contains ''LIMIT'' (upper (strip query)) \<or> contains ''TOP'' (upper (strip query))"
proof
  assume "contains ''LIMIT'' (upper (strip query)) \<or> contains ''TOP'' (upper (strip query))"
  with assms show "snd (query_database_tool env query (PInt L)) = [Connect, Execute query []]"
    by (rule query_database_tool_keeps_limited)
next
  assume same: "snd (query_database_tool env query (PInt L)) = [Connect, Execute query []]"
  show "contains ''LIMIT'' (upper (strip query)) \<or> contains ''TOP'' (upper (strip query))"
  proof (rule ccontr)
    assume "\<not> ?thesis"
    then have n: "\<not> contains ''LIMIT'' (upper (strip query))"
                 "\<not> contains ''TOP'' (upper (strip query))"
      by simp_all
    from query_database_tool_rewritten_text [OF assms(1) n assms(2), of L]
    obtain rest where
      "snd (query_database_tool env query (PInt L)) =
         [Connect, Execute (''SELECT TOP '' @ rest) []] \<or>
       snd (query_database_tool env query (PInt L)) =
         [Connect, Execute (''SELECT DISTINCT TOP '' @ rest) []]"
      by blast
    then have "query = ''SELECT TOP '' @ rest \<or> query = ''SELECT DISTINCT TOP '' @ rest"
      unfolding same by simp
    then have "contains ''TOP'' (upper (strip query))"
      using rewritten_has_top by blast
    with n show False
      by simp
  qed
qed

text \<open>
  C4. The claim: a SELECT query is passed to execution unmodified if and only if its
  upper-cased text contains \<open>TOP\<close> or \<open>LIMIT\<close> followed by a space, so a query without such
  a token always receives a TOP clause. The query tool of main.py tests for the
  substrings \<open>TOP\<close> and \<open>LIMIT\<close> without the space: \<open>SELECT * FROM laptops\<close> contains neither
  token, and is executed as it was given, with no row limit.
\<close>

theorem query_database_top_substring:
  "\<not> contains ''TOP '' (upper (strip ''SELECT * FROM laptops'')) \<and>
   \<not> contains ''LIMIT '' (upper (strip ''SELECT * FROM laptops'')) \<and>
   snd (query_database_tool sample_env ''SELECT * FROM laptops'' (PInt 10)) =
     [Connect, Execute ''SELECT * FROM laptops'' []]"
  by code_simp


section \<open>The row serializer\<close>

lemma serialize_value_bytes: "serialize_value (PBytes b) = PBytes b"
  by (simp add: serialize_value_def)

text \<open>
  What database.py does with a row value: bytes become the decoded string, or the
  placeholder with the number of bytes; a date or a time becomes its ISO text; any other
  value is kept.
\<close>

lemma serialize_value_select_cases:
  "serialize_value_select env (PBytes b) =
     (case decode_utf8 env b of
        Some s \<Rightarrow> PStr s
      | None \<Rightarrow> PStr (''<binary data: '' @ str_int (int (length b)) @ '' bytes>''))"
  "serialize_value_select env (PDateTime t) = PStr (isoformat_datetime t)"
  "serialize_value_select env (PDate d) = PStr (isoformat_date d)"
  "serialize_value_select env PNone = PNone"
  "serialize_value_select env (PBool f) = PBool f"
  "serialize_value_select env (PInt i) = PInt i"
  "serialize_value_select env (PStr s) = PStr s"
  by (simp_all add: serialize_value_select_def)

lemma execute_select_query_binary:
  "fst (execute_select_query \<lparr>max_rows = 1000, enable_write_ops = False\<rparr> binary_env
          ''SELECT TOP 1 payload FROM files'' [] None) =
     Inr [PDict [(''payload'', PStr ''<binary data: 4 bytes>'')]]"
  by code_simp

text \<open>
  C6. The claim: the row serializer on the query-execution path turns a byte-sequence
  value into its UTF-8 decoding, or into the placeholder \<open><binary data: N bytes>\<close> when it
  does not decode. The handlers of main.py execute their queries through
  \<open>DatabaseManager.execute_query\<close>, whose loop converts dates only: a binary value of four
  bytes that do not decode is returned as the bytes it was, and \<open>json.dumps\<close> then fails on
  the handler's result.
\<close>

theorem execute_query_keeps_bytes:
  "decode_utf8 binary_env [0xFF, 0xFE, 0xFD, 0xFC] = None \<and>
   fst (execute_query binary_env ''SELECT TOP 1 payload FROM files'' []) =
     Inr [PDict [(''payload'', PBytes [0xFF, 0xFE, 0xFD, 0xFC])]] \<and>
   fst (mcp_handler binary_env
          [(''jsonrpc'', PStr ''2.0''),
           (''method'', PStr ''tools/call''),
           (''params'', PDict [(''name'', PStr ''query_database''),
                               (''arguments'',
                                  PDict [(''query'', PStr ''SELECT TOP 1 payload FROM files'')])]),
           (''id'', PInt 1)]) =
     rpc_result [(''id'', PInt 1)]
       (tool_content ''error: Object of type bytes is not JSON serializable'' True)"
  by code_simp

section \<open>The dispatcher\<close>

text \<open>
  C7. For every \<open>tools/call\<close> request that names a tool of the registry, if the call of
  the handler raises an exception \<open>e\<close>, the dispatcher returns the envelope with the keys
  \<open>jsonrpc\<close>, \<open>result\<close> and \<open>id\<close> (and no \<open>error\<close>), whose result has \<open>isError\<close> true and, as
  the text of its content, the JSON of \<open>{"error": str(e)}\<close>; the database events are those
  of the call. The dispatcher returns a response on every request: no exception leaves it.
\<close>

theorem tools_call_handler_exception:
  assumes "map_of request ''method'' = Some (PStr ''tools/call'')"
      and "map_of request ''params'' = Some (PDict params)"
      and "map_of params ''name'' = Some (PStr name)"
      and "map_of MCP_TOOLS name = Some config"
      and "invoke config env (case map_of params ''arguments'' of None \<Rightarrow> PDict [] | Some a \<Rightarrow> a)
             = (Inl e, tr)"
  shows "mcp_handler env request =
           (PDict [(''jsonrpc'', PStr ''2.0''),
                   (''result'',
                      PDict [(''content'',
                                PList [PDict [(''type'', PStr ''text''),
                                              (''text'',
                                                 PStr (dumps env
                                                   (PDict [(''error'', PStr (str_exn e))])))]]),
                             (''isError'', PBool True)]),
                   (''id'', request_id request)], tr)"
  using assms
  by (simp add: mcp_handler_def rpc_result_def tool_content_def)

theorem tools_call_handler_exception_witness:
  "map_of [(''jsonrpc'', PStr ''2.0''), (''method'', PStr ''tools/call''),
           (''params'', PDict [(''name'', PStr ''query_database''), (''arguments'', PDict [])]),
           (''id'', PInt 7)] ''method'' = Some (PStr ''tools/call'') \<and>
   map_of MCP_TOOLS ''query_database'' = Some (snd (MCP_TOOLS ! 0)) \<and>
   invoke (snd (MCP_TOOLS ! 0)) sample_env (PDict []) =
     (Inl (TypeError (''query_database_tool() missing 1 required positional argument: '' @
                      quoted ''query'')), []) \<and>
   mcp_handler sample_env
     [(''jsonrpc'', PStr ''2.0''), (''method'', PStr ''tools/call''),
      (''params'', PDict [(''name'', PStr ''query_database''), (''arguments'', PDict [])]),
      (''id'', PInt 7)] =
     (PDict [(''jsonrpc'', PStr ''2.0''),
             (''result'',
                PDict [(''content'',
                          PList [PDict [(''type'', PStr ''text''),
                                        (''text'',
                                           PStr (''error: query_database_tool() missing 1 required positional argument: '' @
                                                 quoted ''query''))]]),
                       (''isError'', PBool True)]),
             (''id'', PInt 7)], [])"
proof -
  let ?params = "[(''name'', PStr ''query_database''), (''arguments'', PDict [])]"
  let ?request = "[(''jsonrpc'', PStr ''2.0''), (''method'', PStr ''tools/call''),
                   (''params'', PDict ?params), (''id'', PInt 7)]"
  let ?e = "TypeError (''query_database_tool() missing 1 required positional argument: '' @
                       quoted ''query'')"
  have h1: "map_of ?request ''method'' = Some (PStr ''tools/call'')"
    by simp
  have h2: "map_of ?request ''params'' = Some (PDict ?params)"
    by simp
  have h3: "map_of ?params ''name'' = Some (PStr ''query_database'')"
    by simp
  have h4: "map_of MCP_TOOLS ''query_database'' = Some (snd (MCP_TOOLS ! 0))"
    by (simp add: MCP_TOOLS_def)
  have f: "tool_function (snd (MCP_TOOLS ! 0)) = call_query_database"
    by (simp add: MCP_TOOLS_def)
  have c: "call_query_database sample_env [] = (Inl ?e, [])"
    by code_simp
  have h5: "invoke (snd (MCP_TOOLS ! 0)) sample_env
              (case map_of ?params ''arguments'' of None \<Rightarrow> PDict [] | Some a \<Rightarrow> a) = (Inl ?e, [])"
    by (simp add: invoke_def f c)
  have d: "dumps sample_env (PDict [(''error'', PStr (str_exn ?e))]) =
             ''error: query_database_tool() missing 1 required positional argument: '' @
             quoted ''query''"
    by (simp add: sample_env_def)
  have i: "request_id ?request = PInt 7"
    by (simp add: request_id_def)
  from tools_call_handler_exception [OF h1 h2 h3 h4 h5] h1 h4 h5 d i show ?thesis
    by simp
qed

text \<open>
  C10. The dispatcher does not read the \<open>jsonrpc\<close> field of the request: two requests that
  agree on every key other than \<open>jsonrpc\<close> get, from the same database, clock and library,
  the same response and the same database events.
\<close>

theorem jsonrpc_field_ignored:
  assumes "\<And>k. k \<noteq> ''jsonrpc'' \<Longrightarrow> map_of r1 k = map_of r2 k"
  shows "mcp_handler env r1 = mcp_handler env r2"
proof -
  have m: "map_of r1 ''method'' = map_of r2 ''method''"
    by (rule assms) simp
  have p: "map_of r1 ''params'' = map_of r2 ''params''"
    by (rule assms) simp
  have i: "map_of r1 ''id'' = map_of r2 ''id''"
    by (rule assms) simp
  have e: "rpc_error r1 = rpc_error r2"
    by (rule ext)+ (simp add: rpc_error_def request_id_def i)
  have r: "rpc_result r1 = rpc_result r2"
    by (rule ext) (simp add: rpc_result_def request_id_def i)
  show ?thesis
    unfolding mcp_handler_def m p e r by (rule refl)
qed

theorem jsonrpc_field_ignored_witness:
  "mcp_handler sample_env
     [(''jsonrpc'', PStr ''2.0''), (''method'', PStr ''tools/call''),
      (''params'', PDict [(''name'', PStr ''list_tables'')]), (''id'', PInt 3)] =
   mcp_handler sample_env
     [(''method'', PStr ''tools/call''), (''jsonrpc'', PInt 1),
      (''params'', PDict [(''name'', PStr ''list_tables'')]), (''id'', PInt 3)]"
proof -
  let ?r1 = "[(''jsonrpc'', PStr ''2.0''), (''method'', PStr ''tools/call''),
              (''params'', PDict [(''name'', PStr ''list_tables'')]), (''id'', PInt 3)]"
  let ?r2 = "[(''method'', PStr ''tools/call''), (''jsonrpc'', PInt 1),
              (''params'', PDict [(''name'', PStr ''list_tables'')]), (''id'', PInt 3)]"
  have h: "map_of ?r1 k = map_of ?r2 k" if "k \<noteq> ''jsonrpc''" for k
    using that by simp
  from jsonrpc_field_ignored [of ?r1 ?r2 sample_env, OF h] show ?thesis
    by simp
qed


section \<open>Stored procedures\<close>

lemma strip_keeps_head:
  assumes "\<not> is_space x"
  shows "strip (x # xs) = x # rev (dropWhile is_space (rev xs))"
  using assms by (simp add: strip_def dropWhile_append)

lemma exec_is_no_select: "\<not> startswith (upper (strip (''EXEC '' @ rest))) ''SELECT''"
proof -
  have "\<not> is_space CHR ''E''"
    by code_simp
  then have "strip (''EXEC '' @ rest) = CHR ''E'' # rev (dropWhile is_space (rev (''XEC '' @ rest)))"
    using strip_keeps_head [of "CHR ''E''" "''XEC '' @ rest"] by simp
  moreover have "upper_char CHR ''E'' = CHR ''E''"
    by code_simp
  ultimately show ?thesis
    by (simp add: upper_def startswith_def)
qed

text \<open>
  C8. With a database that accepts the connection, \<open>execute_stored_procedure\<close> called with
  a non-empty mapping of parameters executes exactly the statement \<open>EXEC <procedure_name>\<close>
  followed by \<open>@k = ?\<close> for each key of the mapping, in the order of the mapping and
  separated by a comma and a space, with the values of the mapping bound in the same order;
  with no parameters (or an empty mapping) it executes exactly \<open>EXEC <procedure_name>\<close>
  with nothing bound. The statement is executed although the test that the query tool
  applies would not take it for a SELECT; the handler consults no flag.
\<close>

theorem stored_procedure_statement:
  assumes "connect env = None"
  shows "(items \<noteq> [] \<longrightarrow>
            snd (execute_stored_procedure_tool env (PStr name) (PDict items)) =
              [Connect,
               Execute (''EXEC '' @ name @ '' '' @
                        join '', '' (map (\<lambda>k. ''@'' @ k @ '' = ?'') (map fst items)))
                       (map snd items)]) \<and>
         snd (execute_stored_procedure_tool env (PStr name) PNone) =
           [Connect, Execute (''EXEC '' @ name) []] \<and>
         snd (execute_stored_procedure_tool env (PStr name) (PDict [])) =
           [Connect, Execute (''EXEC '' @ name) []] \<and>
         \<not> startswith (upper (strip (''EXEC '' @ rest))) ''SELECT''"
  using assms exec_is_no_select [of rest]
  by (simp add: execute_stored_procedure_tool_def truthy_def format_value_def Let_def
        execute_query_events case_prod_unfold comp_def split: prod.splits sum.splits)

theorem stored_procedure_statement_witness:
  "connect sample_env = None \<and>
   [(''id'', PInt 5), (''name'', PStr ''x'')] \<noteq> [] \<and>
   snd (execute_stored_procedure_tool sample_env (PStr ''sp_x'')
          (PDict [(''id'', PInt 5), (''name'', PStr ''x'')])) =
     [Connect, Execute ''EXEC sp_x @id = ?, @name = ?'' [PInt 5, PStr ''x'']] \<and>
   snd (execute_stored_procedure_tool sample_env (PStr ''sp_x'') PNone) =
     [Connect, Execute ''EXEC sp_x'' []]"
proof -
  have h: "connect sample_env = None"
    by (simp add: sample_env_def)
  from stored_procedure_statement
         [OF h, of "[(''id'', PInt 5), (''name'', PStr ''x'')]" "''sp_x''"] h
  show ?thesis
    by simp
qed

section \<open>Failure results\<close>











end
